theory Spec2Isabelle
  imports Main "HOL-Library.Word"
begin

section \<open>DVFS frequency-limit arbitration of kernel/power/main.c\<close>

text \<open>
  The embedding follows the \<^verbatim>\<open>CONFIG_DVFS_LIMIT\<close> part of \<^verbatim>\<open>kernel/power/main.c\<close>:
  the policy notifier \<^verbatim>\<open>dvfs_cpufreq_notifier\<close>, the table lookup
  \<^verbatim>\<open>get_cpufreq_level\<close> and the two sysfs store handlers
  \<^verbatim>\<open>cpufreq_max_limit_store\<close> and \<^verbatim>\<open>cpufreq_min_limit_store\<close>.

  C \<^verbatim>\<open>int\<close> and \<^verbatim>\<open>unsigned int\<close> are both \<open>32 word\<close>: a cast between them keeps the
  bits, an unsigned comparison is \<open>\<le>\<close> / \<open><\<close> on words, a signed one is \<open>\<le>s\<close> / \<open><s\<close>,
  and the \<^verbatim>\<open>int\<close> value \<^verbatim>\<open>-1\<close> is the word \<open>- 1\<close>.
\<close>

subsection \<open>Data\<close>

type_synonym freq = "32 word"

text \<open>
  What the handlers read from outside the file.
  \<^item> \<open>freq_table\<close> is the result of \<^verbatim>\<open>cpufreq_frequency_get_table(0)\<close>: \<open>None\<close> for a
    \<^verbatim>\<open>NULL\<close> pointer, otherwise the \<^verbatim>\<open>.frequency\<close> fields of the entries that come
    before the first \<^verbatim>\<open>CPUFREQ_TABLE_END\<close> entry, in array order. The length of that
    list is what every \<^verbatim>\<open>table_length\<close> loop of the source computes.
  \<^item> \<open>debug_mask\<close> is the module parameter of that name.
  \<^item> \<open>PRCMU_QOS_DEFAULT_VALUE\<close> and \<open>CPUFREQ_ADJUST\<close> are constants of headers that are
    not part of the file (\<^verbatim>\<open>linux/mfd/dbx500-prcmu.h\<close>, \<^verbatim>\<open>linux/cpufreq.h\<close>); they are
    taken as parameters.
\<close>

record platform =
  freq_table :: "freq list option"
  debug_mask :: bool
  PRCMU_QOS_DEFAULT_VALUE :: "32 word"
  CPUFREQ_ADJUST :: "32 word"

text \<open>
  Modelled from the spec: the sentinel that marks a table entry as invalid. Its
  definition is in \<^verbatim>\<open>linux/cpufreq.h\<close>, which is not part of the file; the value is the
  kernel's, \<^verbatim>\<open>~0\<close> as an \<^verbatim>\<open>unsigned int\<close>. In the file only \<^verbatim>\<open>cpufreq_table_show\<close>
  tests for it.
\<close>

definition CPUFREQ_ENTRY_INVALID :: freq where
  "CPUFREQ_ENTRY_INVALID = - 1"

datatype dvfs_lock_request_type = DVFS_MIN_LOCK_REQ | DVFS_MAX_LOCK_REQ

datatype errno = EINVAL

datatype notify_status = NOTIFY_DONE

text \<open>The functions that print, standing for \<^verbatim>\<open>__func__\<close> in a message.\<close>

datatype func =
  In_dvfs_cpufreq_notifier
| In_get_cpufreq_level
| In_cpufreq_max_limit_store
| In_cpufreq_min_limit_store

text \<open>The kernel log lines of the modelled functions, with their arguments.\<close>

datatype kmsg =
  Failed_to_get_the_cpufreq_table func
| LOCK_req_matched dvfs_lock_request_type freq freq
| Invalid_cpufreq_format func
| Unlock_request_is_ignored func
| Min_lock_forced_because_of_Max_lock func "32 word"
| Lock_request_is_invalid func

text \<open>
  The three file-scope variables, and a trace of the calls that leave the file:
  \<open>qos\<close> lists the values passed to
  \<^verbatim>\<open>prcmu_qos_update_requirement(PRCMU_QOS_ARM_KHZ, "power", value)\<close>, oldest first;
  \<open>policy_updates\<close> counts the \<^verbatim>\<open>for_each_online_cpu(cpu) cpufreq_update_policy(cpu)\<close>
  rounds; \<open>klog\<close> lists the printed lines, oldest first.
\<close>

record dvfs =
  cpufreq_max_limit_val :: "32 word"
  cpufreq_min_limit_val :: "32 word"
  min_replacement :: "32 word"
  qos :: "32 word list"
  policy_updates :: nat
  klog :: "kmsg list"

text \<open>
  The fields of \<^verbatim>\<open>struct cpufreq_policy\<close> that the file touches. Any other field of
  the struct lives in the record's extension part, which no function here can name.
\<close>

record cpufreq_policy =
  policy_max :: freq
  cpuinfo_min_freq :: freq
  cpuinfo_max_freq :: freq

subsection \<open>cpufreq_table_show\<close>

text \<open>
  The frequencies that a read of the table file prints, in the order printed; \<open>None\<close>
  stands for the line "Failed to get the cpufreq table". The second argument is the
  result of \<^verbatim>\<open>cpufreq_cpu_get(0)\<close>; without a policy the bounds stay at their
  initial values \<^verbatim>\<open>~0\<close> and \<^verbatim>\<open>0\<close>.
  \<^verbatim>\<open>for (i = table_length-1; i >= 0; i--) {
     if ((table[i].frequency == CPUFREQ_ENTRY_INVALID) ||
         (table[i].frequency > max_freq) || (table[i].frequency < min_freq)) continue;
     count += sprintf(&buf[count], "%d ", table[i].frequency); }\<close>
\<close>

fun table_show_scan :: "freq list \<Rightarrow> nat \<Rightarrow> freq \<Rightarrow> freq \<Rightarrow> freq list" where
  "table_show_scan tbl 0 min_freq max_freq = []"
| "table_show_scan tbl (Suc i) min_freq max_freq =
     (if tbl ! i = CPUFREQ_ENTRY_INVALID \<or> max_freq < tbl ! i \<or> tbl ! i < min_freq
      then table_show_scan tbl i min_freq max_freq
      else tbl ! i # table_show_scan tbl i min_freq max_freq)"

definition cpufreq_table_show ::
  "platform \<Rightarrow> 'a cpufreq_policy_scheme option \<Rightarrow> freq list option" where
  "cpufreq_table_show pf policy =
     (case freq_table pf of
        None \<Rightarrow> None
      | Some table \<Rightarrow>
          (let min_freq = (case policy of None \<Rightarrow> - 1 | Some p \<Rightarrow> cpuinfo_min_freq p);
               max_freq = (case policy of None \<Rightarrow> 0 | Some p \<Rightarrow> cpuinfo_max_freq p)
           in Some (table_show_scan table (length table) min_freq max_freq)))"

subsection \<open>get_cpufreq_level\<close>

text \<open>
  \<^verbatim>\<open>for (i = 0; table[i].frequency != CPUFREQ_TABLE_END; i++)
     if (table[i].frequency >= freq) { *level = table[i].frequency; return VALID_LEVEL; }\<close>
\<close>

fun min_lock_scan :: "freq list \<Rightarrow> freq \<Rightarrow> freq option" where
  "min_lock_scan [] freq = None"
| "min_lock_scan (f # fs) freq = (if freq \<le> f then Some f else min_lock_scan fs freq)"

text \<open>
  \<^verbatim>\<open>for (i = table_length-1; i >= 0; i--)
     if (table[i].frequency <= freq) { *level = table[i].frequency; return VALID_LEVEL; }\<close>
  The second argument is \<open>i + 1\<close>, so the loop starts at \<open>length table\<close> and stops at 0.
\<close>

fun max_lock_scan :: "freq list \<Rightarrow> nat \<Rightarrow> freq \<Rightarrow> freq option" where
  "max_lock_scan tbl 0 freq = None"
| "max_lock_scan tbl (Suc i) freq =
     (if tbl ! i \<le> freq then Some (tbl ! i) else max_lock_scan tbl i freq)"

text \<open>
  The result is \<open>Inr level\<close> for \<^verbatim>\<open>VALID_LEVEL\<close> with \<^verbatim>\<open>*level\<close> written, \<open>Inl EINVAL\<close>
  for \<^verbatim>\<open>-EINVAL\<close>; the second component is what the call prints.
\<close>

definition get_cpufreq_level ::
  "platform \<Rightarrow> freq \<Rightarrow> dvfs_lock_request_type \<Rightarrow> (errno + freq) \<times> kmsg list" where
  "get_cpufreq_level pf freq req_type =
     (case freq_table pf of
        None \<Rightarrow> (Inl EINVAL, [Failed_to_get_the_cpufreq_table In_get_cpufreq_level])
      | Some table \<Rightarrow>
          (case (case req_type of
                   DVFS_MIN_LOCK_REQ \<Rightarrow> min_lock_scan table freq
                 | DVFS_MAX_LOCK_REQ \<Rightarrow> max_lock_scan table (length table) freq) of
             Some level \<Rightarrow>
               (Inr level, if debug_mask pf then [LOCK_req_matched req_type freq level] else [])
           | None \<Rightarrow> (Inl EINVAL, [])))"

subsection \<open>dvfs_cpufreq_notifier\<close>

text \<open>
  The callback returns a status and works on the policy through a pointer; the model
  returns the status, the policy afterwards and the printed lines. With an empty table
  and no max lock the source reads \<^verbatim>\<open>table[table_length-1]\<close> at index \<^verbatim>\<open>0 - 1\<close>, outside
  the table: that outcome is \<open>None\<close>.
\<close>

definition dvfs_cpufreq_notifier ::
  "platform \<Rightarrow> dvfs \<Rightarrow> 32 word \<Rightarrow> 'a cpufreq_policy_scheme \<Rightarrow>
     ((errno + notify_status) \<times> 'a cpufreq_policy_scheme \<times> kmsg list) option" where
  "dvfs_cpufreq_notifier pf s event policy =
     (if event \<noteq> CPUFREQ_ADJUST pf then Some (Inr NOTIFY_DONE, policy, [])
      else
        (case freq_table pf of
           None \<Rightarrow>
             Some (Inl EINVAL, policy, [Failed_to_get_the_cpufreq_table In_dvfs_cpufreq_notifier])
         | Some table \<Rightarrow>
             if cpufreq_max_limit_val s \<noteq> - 1 \<and> cpufreq_max_limit_val s < policy_max policy
             then Some (Inr NOTIFY_DONE, policy\<lparr>policy_max := cpufreq_max_limit_val s\<rparr>, [])
             else if cpufreq_max_limit_val s = - 1
             then (if table = [] then None
                   else Some (Inr NOTIFY_DONE,
                              policy\<lparr>policy_max := table ! (length table - 1)\<rparr>, []))
             else Some (Inr NOTIFY_DONE, policy, [])))"

subsection \<open>The store handlers\<close>

text \<open>
  Both handlers take the outcome of \<^verbatim>\<open>sscanf(buf, "%d", &val)\<close> (\<open>None\<close> when it does not
  return 1, otherwise the \<^verbatim>\<open>int\<close> it read) and the byte count \<open>n\<close>, and return
  \<open>Inl EINVAL\<close> for \<^verbatim>\<open>-EINVAL\<close> or \<open>Inr n\<close> for \<^verbatim>\<open>n\<close>, with the state afterwards.
\<close>

definition prcmu_qos_update_requirement :: "32 word \<Rightarrow> dvfs \<Rightarrow> dvfs" where
  "prcmu_qos_update_requirement v s = s\<lparr>qos := qos s @ [v]\<rparr>"

definition update_policy_all_cpus :: "dvfs \<Rightarrow> dvfs" where
  "update_policy_all_cpus s = s\<lparr>policy_updates := Suc (policy_updates s)\<rparr>"

definition printk :: "kmsg list \<Rightarrow> dvfs \<Rightarrow> dvfs" where
  "printk ms s = s\<lparr>klog := klog s @ ms\<rparr>"

definition cpufreq_max_limit_store ::
  "platform \<Rightarrow> 32 word option \<Rightarrow> nat \<Rightarrow> dvfs \<Rightarrow> (errno + nat) \<times> dvfs" where
  "cpufreq_max_limit_store pf scanned n s =
     (case scanned of
        None \<Rightarrow> (Inl EINVAL, printk [Invalid_cpufreq_format In_cpufreq_max_limit_store] s)
      | Some val \<Rightarrow>
          if val = - 1 then
            (if cpufreq_max_limit_val s \<noteq> - 1 then
               (let s1 = s\<lparr>cpufreq_max_limit_val := - 1\<rparr>;
                    s2 = update_policy_all_cpus s1
                in if min_replacement s2 \<noteq> 0 \<and> cpufreq_min_limit_val s2 \<noteq> - 1
                   then (Inr n, (prcmu_qos_update_requirement (cpufreq_min_limit_val s2) s2)
                                  \<lparr>min_replacement := 0\<rparr>)
                   else (Inr n, s2))
             else (Inr n, printk [Unlock_request_is_ignored In_cpufreq_max_limit_store] s))
          else
            (case get_cpufreq_level pf val DVFS_MAX_LOCK_REQ of
               (Inr cpufreq_level, ms) \<Rightarrow>
                 (let s1 = (printk ms s)\<lparr>cpufreq_max_limit_val := val\<rparr>;
                      s2 = (if cpufreq_min_limit_val s1 \<noteq> - 1 \<and>
                               cpufreq_max_limit_val s1 <s cpufreq_min_limit_val s1
                            then (prcmu_qos_update_requirement (cpufreq_max_limit_val s1)
                                    (printk (if debug_mask pf
                                             then [Min_lock_forced_because_of_Max_lock
                                                     In_cpufreq_max_limit_store
                                                     (cpufreq_max_limit_val s1)]
                                             else []) s1))
                                   \<lparr>min_replacement := 1\<rparr>
                            else s1)
                  in (Inr n, update_policy_all_cpus s2))
             | (Inl e, ms) \<Rightarrow>
                 (Inr n, printk (ms @ [Lock_request_is_invalid In_cpufreq_max_limit_store]) s)))"

definition cpufreq_min_limit_store ::
  "platform \<Rightarrow> 32 word option \<Rightarrow> nat \<Rightarrow> dvfs \<Rightarrow> (errno + nat) \<times> dvfs" where
  "cpufreq_min_limit_store pf scanned n s =
     (case scanned of
        None \<Rightarrow> (Inl EINVAL, printk [Invalid_cpufreq_format In_cpufreq_min_limit_store] s)
      | Some val \<Rightarrow>
          if val = - 1 then
            (if cpufreq_min_limit_val s \<noteq> - 1 then
               (let s1 = s\<lparr>cpufreq_min_limit_val := - 1\<rparr>;
                    s2 = prcmu_qos_update_requirement (PRCMU_QOS_DEFAULT_VALUE pf) s1
                in (Inr n, s2\<lparr>min_replacement := 0\<rparr>))
             else (Inr n, printk [Unlock_request_is_ignored In_cpufreq_min_limit_store] s))
          else
            (case get_cpufreq_level pf val DVFS_MIN_LOCK_REQ of
               (Inr cpufreq_level, ms) \<Rightarrow>
                 (let s1 = (printk ms s)\<lparr>cpufreq_min_limit_val := val\<rparr>
                  in if cpufreq_max_limit_val s1 \<noteq> - 1 \<and>
                        cpufreq_max_limit_val s1 <s cpufreq_min_limit_val s1
                     then (Inr n, (prcmu_qos_update_requirement (cpufreq_max_limit_val s1)
                                     (printk (if debug_mask pf
                                              then [Min_lock_forced_because_of_Max_lock
                                                      In_cpufreq_min_limit_store
                                                      (cpufreq_max_limit_val s1)]
                                              else []) s1))
                                    \<lparr>min_replacement := 1\<rparr>)
                     else (Inr n, prcmu_qos_update_requirement (cpufreq_min_limit_val s1) s1))
             | (Inl e, ms) \<Rightarrow>
                 (Inr n, printk (ms @ [Lock_request_is_invalid In_cpufreq_min_limit_store]) s)))"

text \<open>
  A read of the max or the min file prints the stored value with \<^verbatim>\<open>"%d\n"\<close>; the model
  gives the \<^verbatim>\<open>int\<close> that is printed.
\<close>

definition cpufreq_max_limit_show :: "dvfs \<Rightarrow> 32 word" where
  "cpufreq_max_limit_show s = cpufreq_max_limit_val s"

definition cpufreq_min_limit_show :: "dvfs \<Rightarrow> 32 word" where
  "cpufreq_min_limit_show s = cpufreq_min_limit_val s"

subsection \<open>Notions used to state the properties\<close>

text \<open>The value of the most recent QoS update, if there was one.\<close>

definition last_qos :: "dvfs \<Rightarrow> 32 word option" where
  "last_qos s = (if qos s = [] then None else Some (last (qos s)))"

text \<open>
  The static initialisers of the three variables (\<^verbatim>\<open>-1\<close>, \<^verbatim>\<open>-1\<close>, \<^verbatim>\<open>0\<close>), with empty
  traces.
\<close>

definition dvfs_boot :: dvfs where
  "dvfs_boot = \<lparr>cpufreq_max_limit_val = - 1, cpufreq_min_limit_val = - 1,
                 min_replacement = 0, qos = [], policy_updates = 0, klog = []\<rparr>"

text \<open>
  The states that sequences of writes to the two sysfs files can produce, whatever is
  written (well-formed or not) and whatever the table is at each write.
\<close>

inductive reachable :: "dvfs \<Rightarrow> bool" where
  boot: "reachable dvfs_boot"
| max_store: "reachable s \<Longrightarrow> reachable (snd (cpufreq_max_limit_store pf scanned n s))"
| min_store: "reachable s \<Longrightarrow> reachable (snd (cpufreq_min_limit_store pf scanned n s))"

text \<open>
  The entries of a table that are not the invalid sentinel, and the highest of them
  (as \<^verbatim>\<open>unsigned int\<close>), if there is one.
\<close>

definition valid_entries :: "freq list \<Rightarrow> freq list" where
  "valid_entries table = filter (\<lambda>f. f \<noteq> CPUFREQ_ENTRY_INVALID) table"

definition highest_valid :: "freq list \<Rightarrow> freq option" where
  "highest_valid table =
     (case valid_entries table of [] \<Rightarrow> None | f # fs \<Rightarrow> Some (fold max fs f))"

text \<open>
  The table of the specification's scenario, 100 to 500 in ascending array order, two
  tables with an invalid entry, and a platform whose table is not available yet.
\<close>

definition pf_scenario :: platform where
  "pf_scenario = \<lparr>freq_table = Some [100, 200, 300, 400, 500], debug_mask = False,
                   PRCMU_QOS_DEFAULT_VALUE = - 1, CPUFREQ_ADJUST = 0\<rparr>"

definition pf_invalid_entry :: platform where
  "pf_invalid_entry = \<lparr>freq_table = Some [200, 400, CPUFREQ_ENTRY_INVALID, 800],
                        debug_mask = False, PRCMU_QOS_DEFAULT_VALUE = - 1, CPUFREQ_ADJUST = 0\<rparr>"

definition pf_invalid_last :: platform where
  "pf_invalid_last = \<lparr>freq_table = Some [200, 400, CPUFREQ_ENTRY_INVALID],
                       debug_mask = False, PRCMU_QOS_DEFAULT_VALUE = - 1, CPUFREQ_ADJUST = 0\<rparr>"

definition pf_no_table :: platform where
  "pf_no_table = \<lparr>freq_table = None, debug_mask = False,
                   PRCMU_QOS_DEFAULT_VALUE = - 1, CPUFREQ_ADJUST = 0\<rparr>"

text \<open>A policy whose ceiling is 400, on hardware that ranges from 100 to 500.\<close>

definition policy_400 :: cpufreq_policy where
  "policy_400 = \<lparr>policy_max = 400, cpuinfo_min_freq = 100, cpuinfo_max_freq = 500\<rparr>"

text \<open>
  The state after writing 450 to the min file and then 350 to the max file, from boot,
  with the scenario's table.
\<close>

definition dvfs_replaced :: dvfs where
  "dvfs_replaced =
     snd (cpufreq_max_limit_store pf_scenario (Some 350) 4
            (snd (cpufreq_min_limit_store pf_scenario (Some 450) 4 dvfs_boot)))"

text \<open>The replacement flag is set only while both limits are locked.\<close>

definition replacement_inv :: "dvfs \<Rightarrow> bool" where
  "replacement_inv s =
     (min_replacement s = 0 \<or>
      cpufreq_min_limit_val s \<noteq> - 1 \<and> cpufreq_max_limit_val s \<noteq> - 1)"

text \<open>The replacement flag is set only while the min limit is locked.\<close>

definition min_replacement_locked :: "dvfs \<Rightarrow> bool" where
  "min_replacement_locked s = (min_replacement s = 0 \<or> cpufreq_min_limit_val s \<noteq> - 1)"

section \<open>Properties\<close>

subsection \<open>The table scans\<close>

lemmas effect_defs =
  prcmu_qos_update_requirement_def update_policy_all_cpus_def printk_def

lemma max_lock_scan_sound:
  "max_lock_scan tbl k freq = Some level \<Longrightarrow> k \<le> length tbl \<Longrightarrow>
     level \<le> freq \<and> level \<in> set tbl"
  by (induction k) (auto split: if_splits)

lemma min_lock_scan_sound:
  "min_lock_scan tbl freq = Some level \<Longrightarrow> freq \<le> level \<and> level \<in> set tbl"
  by (induction tbl) (auto split: if_splits)

lemma min_lock_scan_None: "min_lock_scan tbl freq = None \<longleftrightarrow> (\<forall>f \<in> set tbl. f < freq)"
  by (induction tbl) (auto simp: not_le)

lemma get_level_max_sound:
  assumes "fst (get_cpufreq_level pf v DVFS_MAX_LOCK_REQ) = Inr level"
  shows "level \<le> v \<and> (\<exists>table. freq_table pf = Some table \<and> level \<in> set table)"
  using assms max_lock_scan_sound [of _ _ v level]
  by (auto simp: get_cpufreq_level_def split: option.splits)

lemma get_level_min_sound:
  assumes "fst (get_cpufreq_level pf v DVFS_MIN_LOCK_REQ) = Inr level"
  shows "v \<le> level \<and> (\<exists>table. freq_table pf = Some table \<and> level \<in> set table)"
  using assms min_lock_scan_sound [of _ v level]
  by (auto simp: get_cpufreq_level_def split: option.splits)

text \<open>
  The max-lock scan never returns the invalid sentinel for a lock request: the sentinel
  is the largest \<^verbatim>\<open>unsigned int\<close>, and the request \<^verbatim>\<open>-1\<close>, the only one not below it, is
  the unlock request.
\<close>

lemma max_lock_skips_invalid:
  assumes "v \<noteq> - 1" and "fst (get_cpufreq_level pf v DVFS_MAX_LOCK_REQ) = Inr level"
  shows "level \<noteq> CPUFREQ_ENTRY_INVALID"
proof
  assume "level = CPUFREQ_ENTRY_INVALID"
  with get_level_max_sound [OF assms(2)] have "(- 1 :: 32 word) \<le> v"
    by (simp add: CPUFREQ_ENTRY_INVALID_def)
  then have "v = - 1" by (simp add: word_order.extremum_unique)
  with assms(1) show False by simp
qed

text \<open>The table file never lists the invalid sentinel.\<close>

lemma table_show_scan_skips_invalid:
  "CPUFREQ_ENTRY_INVALID \<notin> set (table_show_scan tbl k min_freq max_freq)"
  by (induction k) auto

lemma table_show_skips_invalid:
  "cpufreq_table_show pf policy = Some fs \<Longrightarrow> CPUFREQ_ENTRY_INVALID \<notin> set fs"
  by (auto simp: cpufreq_table_show_def Let_def table_show_scan_skips_invalid
           split: option.splits)

text \<open>After a max lock that resolves, the max file reads back the request.\<close>

lemma max_show_after_lock:
  assumes "v \<noteq> - 1" and "fst (get_cpufreq_level pf v DVFS_MAX_LOCK_REQ) = Inr level"
  shows "cpufreq_max_limit_show (snd (cpufreq_max_limit_store pf (Some v) n s)) = v"
  using assms
  by (auto simp: cpufreq_max_limit_show_def cpufreq_max_limit_store_def
                 prcmu_qos_update_requirement_def update_policy_all_cpus_def printk_def Let_def
           split: prod.splits sum.splits)

text \<open>
  The min-lock scan fails exactly for the requests above every entry before the
  terminator, invalid entries included. On a table without invalid entries these are
  the requests above its highest frequency.
\<close>

lemma min_lock_above_table:
  assumes "freq_table pf = Some table"
  shows "fst (get_cpufreq_level pf v DVFS_MIN_LOCK_REQ) = Inl EINVAL \<longleftrightarrow>
         (\<forall>f \<in> set table. f < v)"
  using assms min_lock_scan_None [of table v]
  by (auto simp: get_cpufreq_level_def split: option.splits)

subsection \<open>One store, field by field\<close>

lemma max_store_lock:
  assumes "v \<noteq> - 1" and "fst (get_cpufreq_level pf v DVFS_MAX_LOCK_REQ) = Inr level"
  shows "fst (cpufreq_max_limit_store pf (Some v) n s) = Inr n"
    and "cpufreq_max_limit_val (snd (cpufreq_max_limit_store pf (Some v) n s)) = v"
    and "cpufreq_min_limit_val (snd (cpufreq_max_limit_store pf (Some v) n s)) =
           cpufreq_min_limit_val s"
    and "min_replacement (snd (cpufreq_max_limit_store pf (Some v) n s)) =
           (if cpufreq_min_limit_val s \<noteq> - 1 \<and> v <s cpufreq_min_limit_val s
            then 1 else min_replacement s)"
    and "qos (snd (cpufreq_max_limit_store pf (Some v) n s)) =
           (if cpufreq_min_limit_val s \<noteq> - 1 \<and> v <s cpufreq_min_limit_val s
            then qos s @ [v] else qos s)"
  using assms
  by (auto simp: cpufreq_max_limit_store_def effect_defs Let_def split: prod.splits sum.splits)

lemma min_store_lock:
  assumes "v \<noteq> - 1" and "fst (get_cpufreq_level pf v DVFS_MIN_LOCK_REQ) = Inr level"
  shows "fst (cpufreq_min_limit_store pf (Some v) n s) = Inr n"
    and "cpufreq_min_limit_val (snd (cpufreq_min_limit_store pf (Some v) n s)) = v"
    and "cpufreq_max_limit_val (snd (cpufreq_min_limit_store pf (Some v) n s)) =
           cpufreq_max_limit_val s"
    and "min_replacement (snd (cpufreq_min_limit_store pf (Some v) n s)) =
           (if cpufreq_max_limit_val s \<noteq> - 1 \<and> cpufreq_max_limit_val s <s v
            then 1 else min_replacement s)"
    and "qos (snd (cpufreq_min_limit_store pf (Some v) n s)) =
           (if cpufreq_max_limit_val s \<noteq> - 1 \<and> cpufreq_max_limit_val s <s v
            then qos s @ [cpufreq_max_limit_val s] else qos s @ [v])"
  using assms
  by (auto simp: cpufreq_min_limit_store_def effect_defs Let_def split: prod.splits sum.splits)

lemma max_store_unlock_val:
  "cpufreq_max_limit_val (snd (cpufreq_max_limit_store pf (Some (- 1)) n s)) = - 1"
  by (simp add: cpufreq_max_limit_store_def effect_defs Let_def)

lemma store_EINVAL_iff:
  "fst (cpufreq_max_limit_store pf scanned n s) = Inl EINVAL \<longleftrightarrow> scanned = None"
  "fst (cpufreq_min_limit_store pf scanned n s) = Inl EINVAL \<longleftrightarrow> scanned = None"
  by (auto simp: cpufreq_max_limit_store_def cpufreq_min_limit_store_def Let_def
           split: option.splits prod.splits sum.splits)

subsection \<open>The replacement flag\<close>

lemma max_store_inv:
  "replacement_inv s \<Longrightarrow> replacement_inv (snd (cpufreq_max_limit_store pf scanned n s))"
  by (auto simp: replacement_inv_def cpufreq_max_limit_store_def effect_defs Let_def
           split: option.splits prod.splits sum.splits)

lemma min_store_inv:
  "replacement_inv s \<Longrightarrow> replacement_inv (snd (cpufreq_min_limit_store pf scanned n s))"
  by (auto simp: replacement_inv_def cpufreq_min_limit_store_def effect_defs Let_def
           split: option.splits prod.splits sum.splits)

lemma reachable_inv: "reachable s \<Longrightarrow> replacement_inv s"
proof (induction rule: reachable.induct)
  case boot
  show ?case by (simp add: replacement_inv_def dvfs_boot_def)
next
  case (max_store s pf scanned n)
  then show ?case by (simp add: max_store_inv)
next
  case (min_store s pf scanned n)
  then show ?case by (simp add: min_store_inv)
qed

lemma max_store_locked:
  "min_replacement_locked s \<Longrightarrow>
     min_replacement_locked (snd (cpufreq_max_limit_store pf scanned n s))"
  by (auto simp: min_replacement_locked_def cpufreq_max_limit_store_def effect_defs Let_def
           split: option.splits prod.splits sum.splits)

lemma min_store_locked:
  "min_replacement_locked s \<Longrightarrow>
     min_replacement_locked (snd (cpufreq_min_limit_store pf scanned n s))"
  by (auto simp: min_replacement_locked_def cpufreq_min_limit_store_def effect_defs Let_def
           split: option.splits prod.splits sum.splits)

subsection \<open>The concrete tables and states\<close>

lemma scenario_debug_mask: "debug_mask pf_scenario = False"
  by (simp add: pf_scenario_def)

lemma scenario_min_450:
  "get_cpufreq_level pf_scenario 450 DVFS_MIN_LOCK_REQ = (Inr 500, [])"
  by (simp add: get_cpufreq_level_def pf_scenario_def)

lemma scenario_max_350:
  "get_cpufreq_level pf_scenario 350 DVFS_MAX_LOCK_REQ = (Inr 300, [])"
  by (simp add: get_cpufreq_level_def pf_scenario_def)

lemma scenario_min_250:
  "get_cpufreq_level pf_scenario 250 DVFS_MIN_LOCK_REQ = (Inr 300, [])"
  by (simp add: get_cpufreq_level_def pf_scenario_def)

lemma scenario_max_280:
  "get_cpufreq_level pf_scenario 280 DVFS_MAX_LOCK_REQ = (Inr 200, [])"
  by (simp add: get_cpufreq_level_def pf_scenario_def)

lemma scenario_min_600:
  "get_cpufreq_level pf_scenario 600 DVFS_MIN_LOCK_REQ = (Inl EINVAL, [])"
  by (simp add: get_cpufreq_level_def pf_scenario_def)

lemma scenario_max_50:
  "get_cpufreq_level pf_scenario 50 DVFS_MAX_LOCK_REQ = (Inl EINVAL, [])"
  by (simp add: get_cpufreq_level_def pf_scenario_def)

lemma dvfs_replaced_eq:
  "dvfs_replaced = \<lparr>cpufreq_max_limit_val = 350, cpufreq_min_limit_val = 450,
                     min_replacement = 1, qos = [450, 350], policy_updates = 1, klog = []\<rparr>"
  by (simp add: dvfs_replaced_def cpufreq_max_limit_store_def cpufreq_min_limit_store_def
        scenario_min_450 scenario_max_350 scenario_debug_mask effect_defs dvfs_boot_def
        word_sless_alt)

lemma reachable_dvfs_replaced: "reachable dvfs_replaced"
  unfolding dvfs_replaced_def by (intro reachable.intros)

subsection \<open>The last entry and the highest valid entry\<close>

lemma last_filter_keeps:
  "xs \<noteq> [] \<Longrightarrow> P (last xs) \<Longrightarrow> filter P xs \<noteq> [] \<and> last (filter P xs) = last xs"
  by (induction xs) (auto split: if_splits)

lemma highest_valid_last:
  assumes "table \<noteq> []" and "last table \<noteq> CPUFREQ_ENTRY_INVALID"
    and "\<forall>f \<in> set table. f \<noteq> CPUFREQ_ENTRY_INVALID \<longrightarrow> f \<le> last table"
  shows "highest_valid table = Some (last table)"
proof -
  have ne: "valid_entries table \<noteq> []" and l: "last (valid_entries table) = last table"
    using last_filter_keeps [of table "\<lambda>f. f \<noteq> CPUFREQ_ENTRY_INVALID"] assms(1,2)
    by (simp_all add: valid_entries_def)
  from ne obtain f fs where c: "valid_entries table = f # fs"
    by (cases "valid_entries table") auto
  have "fold max fs f = Max (set (f # fs))"
    by (simp only: Max.set_eq_fold)
  also have "\<dots> = Max (set (valid_entries table))"
    by (simp only: c)
  also have "\<dots> = last table"
  proof (rule Max_eqI)
    show "finite (set (valid_entries table))" by simp
    show "last table \<in> set (valid_entries table)"
      using ne l last_in_set [of "valid_entries table"] by simp
    fix y
    assume "y \<in> set (valid_entries table)"
    then show "y \<le> last table"
      using assms(3) by (simp add: valid_entries_def)
  qed
  finally show ?thesis
    using c by (simp add: highest_valid_def)
qed

text \<open>Without a max lock the notifier writes the last entry before the terminator.\<close>

lemma notifier_unlocked_last_entry:
  assumes "freq_table pf = Some table" and "table \<noteq> []"
    and "cpufreq_max_limit_val s = - 1"
  shows "dvfs_cpufreq_notifier pf s (CPUFREQ_ADJUST pf) policy =
           Some (Inr NOTIFY_DONE, policy\<lparr>policy_max := last table\<rparr>, [])"
  using assms by (simp add: dvfs_cpufreq_notifier_def last_conv_nth)

text \<open>
  So the ceiling it leaves is the highest valid entry whenever the last entry is valid
  and no valid entry is above it.
\<close>

lemma notifier_unlocked_highest_valid:
  assumes "freq_table pf = Some table" and "table \<noteq> []"
    and "cpufreq_max_limit_val s = - 1"
    and "last table \<noteq> CPUFREQ_ENTRY_INVALID"
    and "\<forall>f \<in> set table. f \<noteq> CPUFREQ_ENTRY_INVALID \<longrightarrow> f \<le> last table"
  shows "\<exists>f. highest_valid table = Some f \<and>
             dvfs_cpufreq_notifier pf s (CPUFREQ_ADJUST pf) policy =
               Some (Inr NOTIFY_DONE, policy\<lparr>policy_max := f\<rparr>, [])"
  using notifier_unlocked_last_entry [OF assms(1,2,3)] highest_valid_last [OF assms(2,4,5)]
  by simp

text \<open>
  With a max lock the notifier lowers the ceiling that the policy came with to the
  stored value, compared as \<^verbatim>\<open>unsigned int\<close>, and never raises it.
\<close>

lemma notifier_locked_ceiling:
  assumes "freq_table pf = Some table" and "cpufreq_max_limit_val s \<noteq> - 1"
  shows "dvfs_cpufreq_notifier pf s (CPUFREQ_ADJUST pf) policy =
           Some (Inr NOTIFY_DONE,
                 policy\<lparr>policy_max := min (policy_max policy) (cpufreq_max_limit_val s)\<rparr>, [])"
  using assms by (auto simp: dvfs_cpufreq_notifier_def min_def not_less)

text \<open>
  Where no entry of the table is at or above a min request, the min store treats the
  request as invalid and changes nothing but the log.
\<close>

lemma min_request_above_every_entry:
  assumes "freq_table pf = Some table" and "v \<noteq> - 1" and "\<forall>f \<in> set table. f < v"
  shows "cpufreq_min_limit_store pf (Some v) n s =
           (Inr n, s\<lparr>klog := klog s @ [Lock_request_is_invalid In_cpufreq_min_limit_store]\<rparr>)"
proof -
  have "min_lock_scan table v = None"
    using assms(3) by (simp add: min_lock_scan_None)
  then show ?thesis
    using assms(1,2)
    by (simp add: cpufreq_min_limit_store_def get_cpufreq_level_def effect_defs)
qed

section \<open>The claims\<close>

subsection \<open>C1: a min request above the max request\<close>

text \<open>
  C1, as amended. For every pair of lock requests that both resolve against the table
  and whose requested values satisfy \<open>min_req > max_req\<close> as \<^verbatim>\<open>int\<close>s, applying the
  two stores in either order, from any state, leaves both limits locked at the requested
  values with \<^verbatim>\<open>min_replacement == 1\<close>, and the last value passed to the QoS update is
  the requested \<open>max_req\<close>. The handlers compare and publish the requested values; the
  level that the table lookup returns is not used beyond the validity test.
\<close>

theorem priority_on_requested_values:
  assumes "vmin \<noteq> - 1" and "vmax \<noteq> - 1"
    and "fst (get_cpufreq_level pf vmin DVFS_MIN_LOCK_REQ) = Inr lmin"
    and "fst (get_cpufreq_level pf vmax DVFS_MAX_LOCK_REQ) = Inr lmax"
    and "vmax <s vmin"
    and "s' = snd (cpufreq_max_limit_store pf (Some vmax) n2
                     (snd (cpufreq_min_limit_store pf (Some vmin) n1 s))) \<or>
         s' = snd (cpufreq_min_limit_store pf (Some vmin) n1
                     (snd (cpufreq_max_limit_store pf (Some vmax) n2 s)))"
  shows "min_replacement s' = 1 \<and> cpufreq_min_limit_val s' = vmin \<and>
         cpufreq_max_limit_val s' = vmax \<and> last_qos s' = Some vmax"
  using assms(6)
proof
  assume "s' = snd (cpufreq_max_limit_store pf (Some vmax) n2
                     (snd (cpufreq_min_limit_store pf (Some vmin) n1 s)))"
  then show ?thesis
    using assms(1,2,5)
    by (simp add: max_store_lock [OF assms(2,4)] min_store_lock [OF assms(1,3)] last_qos_def)
next
  assume "s' = snd (cpufreq_min_limit_store pf (Some vmin) n1
                     (snd (cpufreq_max_limit_store pf (Some vmax) n2 s)))"
  then show ?thesis
    using assms(1,2,5)
    by (simp add: max_store_lock [OF assms(2,4)] min_store_lock [OF assms(1,3)] last_qos_def)
qed

text \<open>Min 450 and max 350 on the scenario's table, min first, from boot.\<close>

theorem priority_on_requested_values_witness:
  "(450 :: 32 word) \<noteq> - 1 \<and> (350 :: 32 word) \<noteq> - 1 \<and>
   fst (get_cpufreq_level pf_scenario 450 DVFS_MIN_LOCK_REQ) = Inr 500 \<and>
   fst (get_cpufreq_level pf_scenario 350 DVFS_MAX_LOCK_REQ) = Inr 300 \<and>
   (350 :: 32 word) <s 450 \<and>
   min_replacement dvfs_replaced = 1 \<and> cpufreq_min_limit_val dvfs_replaced = 450 \<and>
   cpufreq_max_limit_val dvfs_replaced = 350 \<and> last_qos dvfs_replaced = Some 350"
proof -
  have h1: "(450 :: 32 word) \<noteq> - 1" and h2: "(350 :: 32 word) \<noteq> - 1" by simp_all
  have h3: "fst (get_cpufreq_level pf_scenario 450 DVFS_MIN_LOCK_REQ) = Inr 500"
    by (simp add: scenario_min_450)
  have h4: "fst (get_cpufreq_level pf_scenario 350 DVFS_MAX_LOCK_REQ) = Inr 300"
    by (simp add: scenario_max_350)
  have h5: "(350 :: 32 word) <s 450" by (simp add: word_sless_alt)
  have h6: "dvfs_replaced =
              snd (cpufreq_max_limit_store pf_scenario (Some 350) 4
                     (snd (cpufreq_min_limit_store pf_scenario (Some 450) 4 dvfs_boot))) \<or>
            dvfs_replaced =
              snd (cpufreq_min_limit_store pf_scenario (Some 450) 4
                     (snd (cpufreq_max_limit_store pf_scenario (Some 350) 4 dvfs_boot)))"
    by (simp add: dvfs_replaced_def)
  show ?thesis
    using h1 h2 h3 h4 h5 priority_on_requested_values [OF h1 h2 h3 h4 h5 h6]
    by simp
qed

text \<open>
  C1 as stated fails. On the scenario's table the min request 250 resolves to 300 and
  the max request 280 resolves to 200, so the resolved min is above the resolved max;
  but \<open>250 > 280\<close> is false, and in either order the flag stays 0 and the last value
  published is 250. With min 450 and max 350 the flag is set, and the value published
  is the requested 350, not the resolved 300.
\<close>

theorem priority_on_resolved_values_counterexample:
  "get_cpufreq_level pf_scenario 250 DVFS_MIN_LOCK_REQ = (Inr 300, []) \<and>
   get_cpufreq_level pf_scenario 280 DVFS_MAX_LOCK_REQ = (Inr 200, []) \<and>
   (200 :: 32 word) < 300 \<and>
   min_replacement
     (snd (cpufreq_max_limit_store pf_scenario (Some 280) 4
             (snd (cpufreq_min_limit_store pf_scenario (Some 250) 4 dvfs_boot)))) = 0 \<and>
   last_qos
     (snd (cpufreq_max_limit_store pf_scenario (Some 280) 4
             (snd (cpufreq_min_limit_store pf_scenario (Some 250) 4 dvfs_boot)))) = Some 250 \<and>
   min_replacement
     (snd (cpufreq_min_limit_store pf_scenario (Some 250) 4
             (snd (cpufreq_max_limit_store pf_scenario (Some 280) 4 dvfs_boot)))) = 0 \<and>
   last_qos
     (snd (cpufreq_min_limit_store pf_scenario (Some 250) 4
             (snd (cpufreq_max_limit_store pf_scenario (Some 280) 4 dvfs_boot)))) = Some 250 \<and>
   get_cpufreq_level pf_scenario 350 DVFS_MAX_LOCK_REQ = (Inr 300, []) \<and>
   last_qos dvfs_replaced = Some 350"
  by (simp add: scenario_min_250 scenario_max_280 scenario_max_350 scenario_debug_mask
        dvfs_replaced_eq cpufreq_max_limit_store_def cpufreq_min_limit_store_def effect_defs
        dvfs_boot_def last_qos_def word_sless_alt)

subsection \<open>C2: what a max lock stores\<close>

text \<open>
  C2, as amended. For every request \<open>v\<close> other than \<^verbatim>\<open>-1\<close> (so every non-negative one)
  that resolves against the table, the max store succeeds and the stored max value is
  the requested \<open>v\<close> itself; the level found by the lookup is at most \<open>v\<close> and is not
  stored. A write of \<^verbatim>\<open>-1\<close> succeeds and leaves the max value at \<^verbatim>\<open>-1\<close>, unlocked,
  always: from every state and with every table, available or not.
\<close>

theorem max_lock_stores_request:
  "(v \<noteq> - 1 \<and> fst (get_cpufreq_level pf v DVFS_MAX_LOCK_REQ) = Inr level \<longrightarrow>
      fst (cpufreq_max_limit_store pf (Some v) n s) = Inr n \<and>
      cpufreq_max_limit_val (snd (cpufreq_max_limit_store pf (Some v) n s)) = v \<and>
      level \<le> v) \<and>
   fst (cpufreq_max_limit_store pf' (Some (- 1)) n' s') = Inr n' \<and>
   cpufreq_max_limit_val (snd (cpufreq_max_limit_store pf' (Some (- 1)) n' s')) = - 1"
proof (intro conjI impI)
  assume a: "v \<noteq> - 1 \<and> fst (get_cpufreq_level pf v DVFS_MAX_LOCK_REQ) = Inr level"
  then have h1: "v \<noteq> - 1"
    and h2: "fst (get_cpufreq_level pf v DVFS_MAX_LOCK_REQ) = Inr level"
    by simp_all
  show "fst (cpufreq_max_limit_store pf (Some v) n s) = Inr n"
    by (rule max_store_lock(1) [OF h1 h2])
  show "cpufreq_max_limit_val (snd (cpufreq_max_limit_store pf (Some v) n s)) = v"
    by (rule max_store_lock(2) [OF h1 h2])
  show "level \<le> v"
    using get_level_max_sound [OF h2] by simp
next
  show "fst (cpufreq_max_limit_store pf' (Some (- 1)) n' s') = Inr n'"
    by (simp add: cpufreq_max_limit_store_def Let_def)
next
  show "cpufreq_max_limit_val (snd (cpufreq_max_limit_store pf' (Some (- 1)) n' s')) = - 1"
    by (rule max_store_unlock_val)
qed

text \<open>
  A max request of 350 on the scenario's table, from boot; and an unlock from the state
  with max locked at 350, on a platform whose table is not available.
\<close>

theorem max_lock_stores_request_witness:
  "(350 :: 32 word) \<noteq> - 1 \<and>
   fst (get_cpufreq_level pf_scenario 350 DVFS_MAX_LOCK_REQ) = Inr 300 \<and>
   fst (cpufreq_max_limit_store pf_scenario (Some 350) 4 dvfs_boot) = Inr 4 \<and>
   cpufreq_max_limit_val (snd (cpufreq_max_limit_store pf_scenario (Some 350) 4 dvfs_boot)) = 350 \<and>
   freq_table pf_no_table = None \<and>
   cpufreq_max_limit_val dvfs_replaced = 350 \<and>
   fst (cpufreq_max_limit_store pf_no_table (Some (- 1)) 3 dvfs_replaced) = Inr 3 \<and>
   cpufreq_max_limit_val (snd (cpufreq_max_limit_store pf_no_table (Some (- 1)) 3 dvfs_replaced)) = - 1"
proof -
  have h1: "(350 :: 32 word) \<noteq> - 1" by simp
  have h2: "fst (get_cpufreq_level pf_scenario 350 DVFS_MAX_LOCK_REQ) = Inr 300"
    by (simp add: scenario_max_350)
  have h3: "freq_table pf_no_table = None" by (simp add: pf_no_table_def)
  have h4: "cpufreq_max_limit_val dvfs_replaced = 350" by (simp add: dvfs_replaced_eq)
  show ?thesis
    using h1 h2 h3 h4
      max_lock_stores_request [of 350 pf_scenario 300 4 dvfs_boot pf_no_table 3 dvfs_replaced]
    by simp
qed

text \<open>
  C2 as stated fails: the request 350 resolves to 300, and the value stored is 350.
\<close>

theorem max_lock_stores_resolved_counterexample:
  "get_cpufreq_level pf_scenario 350 DVFS_MAX_LOCK_REQ = (Inr 300, []) \<and>
   cpufreq_max_limit_val (snd (cpufreq_max_limit_store pf_scenario (Some 350) 4 dvfs_boot)) = 350 \<and>
   (350 :: 32 word) \<noteq> 300"
  by (simp add: scenario_max_350 cpufreq_max_limit_store_def effect_defs dvfs_boot_def)

subsection \<open>C3: unlocking max while the min is replaced\<close>

text \<open>
  C3, as amended. From every reachable state in which \<^verbatim>\<open>min_replacement\<close> is set, a
  write of \<^verbatim>\<open>-1\<close> to the max file returns success, unlocks max, triggers one policy
  update round, clears \<^verbatim>\<open>min_replacement\<close> and passes the stored min value to the QoS
  update as the last value. The stored min value is the value that was requested, not
  its table resolution; min is locked in every such state, so the default value is
  never what this path publishes.
\<close>

theorem max_unlock_restores_stored_min:
  assumes "reachable s" and "min_replacement s \<noteq> 0"
  shows "cpufreq_max_limit_store pf (Some (- 1)) n s =
           (Inr n, s\<lparr>cpufreq_max_limit_val := - 1, min_replacement := 0,
                      qos := qos s @ [cpufreq_min_limit_val s],
                      policy_updates := Suc (policy_updates s)\<rparr>) \<and>
         min_replacement (snd (cpufreq_max_limit_store pf (Some (- 1)) n s)) = 0 \<and>
         last_qos (snd (cpufreq_max_limit_store pf (Some (- 1)) n s)) =
           Some (cpufreq_min_limit_val s) \<and>
         cpufreq_min_limit_val s \<noteq> - 1"
  using reachable_inv [OF assms(1)] assms(2)
  by (simp add: replacement_inv_def cpufreq_max_limit_store_def effect_defs Let_def
        last_qos_def)

text \<open>From the state with min 450 replaced by max 350.\<close>

theorem max_unlock_restores_stored_min_witness:
  "reachable dvfs_replaced \<and> min_replacement dvfs_replaced \<noteq> 0 \<and>
   min_replacement (snd (cpufreq_max_limit_store pf_scenario (Some (- 1)) 3 dvfs_replaced)) = 0 \<and>
   last_qos (snd (cpufreq_max_limit_store pf_scenario (Some (- 1)) 3 dvfs_replaced)) = Some 450"
proof -
  have r: "reachable dvfs_replaced" by (rule reachable_dvfs_replaced)
  have f: "min_replacement dvfs_replaced \<noteq> 0" by (simp add: dvfs_replaced_eq)
  have m: "cpufreq_min_limit_val dvfs_replaced = 450" by (simp add: dvfs_replaced_eq)
  show ?thesis
    using r f m max_unlock_restores_stored_min [OF r f, of pf_scenario 3]
    by (simp add: last_qos_def)
qed

text \<open>
  C3 as stated fails: in the state with min 450 replaced by max 350 the table-resolved
  min value is 500, and unlocking max publishes 450.
\<close>

theorem max_unlock_restores_resolved_counterexample:
  "min_replacement dvfs_replaced = 1 \<and>
   cpufreq_min_limit_val dvfs_replaced = 450 \<and>
   get_cpufreq_level pf_scenario 450 DVFS_MIN_LOCK_REQ = (Inr 500, []) \<and>
   last_qos (snd (cpufreq_max_limit_store pf_scenario (Some (- 1)) 3 dvfs_replaced)) = Some 450 \<and>
   (450 :: 32 word) \<noteq> 500"
  by (simp add: scenario_min_450 dvfs_replaced_eq cpufreq_max_limit_store_def effect_defs
        last_qos_def)

subsection \<open>C4: a min lock that does not conflict with max\<close>

text \<open>
  C4, as amended. For every min request \<open>v\<close> other than \<^verbatim>\<open>-1\<close> that resolves against
  the table and does not exceed the stored max value as an \<^verbatim>\<open>int\<close> (or max is
  unlocked), the min store stores \<open>v\<close>, passes the requested \<open>v\<close> itself to the QoS
  update as the last value, and does not set \<^verbatim>\<open>min_replacement\<close>: the flag is 0
  afterwards whenever it was 0 before.
\<close>

theorem min_lock_without_conflict:
  assumes "v \<noteq> - 1" and "fst (get_cpufreq_level pf v DVFS_MIN_LOCK_REQ) = Inr level"
    and "cpufreq_max_limit_val s = - 1 \<or> v \<le>s cpufreq_max_limit_val s"
  shows "last_qos (snd (cpufreq_min_limit_store pf (Some v) n s)) = Some v \<and>
         cpufreq_min_limit_val (snd (cpufreq_min_limit_store pf (Some v) n s)) = v \<and>
         (min_replacement s = 0 \<longrightarrow>
            min_replacement (snd (cpufreq_min_limit_store pf (Some v) n s)) = 0)"
  using assms(3)
  by (auto simp: min_store_lock [OF assms(1,2)] last_qos_def word_sless_alt word_sle_eq)

text \<open>A min request of 250 on the scenario's table, from boot, where max is unlocked.\<close>

theorem min_lock_without_conflict_witness:
  "(250 :: 32 word) \<noteq> - 1 \<and>
   fst (get_cpufreq_level pf_scenario 250 DVFS_MIN_LOCK_REQ) = Inr 300 \<and>
   cpufreq_max_limit_val dvfs_boot = - 1 \<and> min_replacement dvfs_boot = 0 \<and>
   last_qos (snd (cpufreq_min_limit_store pf_scenario (Some 250) 4 dvfs_boot)) = Some 250 \<and>
   cpufreq_min_limit_val (snd (cpufreq_min_limit_store pf_scenario (Some 250) 4 dvfs_boot)) = 250 \<and>
   min_replacement (snd (cpufreq_min_limit_store pf_scenario (Some 250) 4 dvfs_boot)) = 0"
proof -
  have h1: "(250 :: 32 word) \<noteq> - 1" by simp
  have h2: "fst (get_cpufreq_level pf_scenario 250 DVFS_MIN_LOCK_REQ) = Inr 300"
    by (simp add: scenario_min_250)
  have h3: "cpufreq_max_limit_val dvfs_boot = - 1 \<or> 250 \<le>s cpufreq_max_limit_val dvfs_boot"
    by (simp add: dvfs_boot_def)
  have h4: "cpufreq_max_limit_val dvfs_boot = - 1" "min_replacement dvfs_boot = 0"
    by (simp_all add: dvfs_boot_def)
  show ?thesis
    using h1 h2 h4 min_lock_without_conflict [OF h1 h2 h3, of 4]
    by simp
qed

text \<open>
  C4 as stated fails. From boot the min request 250 resolves to 300, max is unlocked,
  and the value published is 250. And from the state with min 450 replaced by max 350,
  the min request 200 resolves to 200, which is below the max, and the flag is still 1
  afterwards.
\<close>

theorem min_lock_without_conflict_counterexample:
  "get_cpufreq_level pf_scenario 250 DVFS_MIN_LOCK_REQ = (Inr 300, []) \<and>
   cpufreq_max_limit_val dvfs_boot = - 1 \<and>
   last_qos (snd (cpufreq_min_limit_store pf_scenario (Some 250) 4 dvfs_boot)) = Some 250 \<and>
   (250 :: 32 word) \<noteq> 300 \<and>
   get_cpufreq_level pf_scenario 200 DVFS_MIN_LOCK_REQ = (Inr 200, []) \<and>
   cpufreq_max_limit_val dvfs_replaced = 350 \<and>
   min_replacement (snd (cpufreq_min_limit_store pf_scenario (Some 200) 4 dvfs_replaced)) = 1"
proof -
  have a: "get_cpufreq_level pf_scenario 200 DVFS_MIN_LOCK_REQ = (Inr 200, [])"
    by (simp add: get_cpufreq_level_def pf_scenario_def)
  show ?thesis
    by (simp add: a scenario_min_250 scenario_debug_mask dvfs_replaced_eq
          cpufreq_min_limit_store_def effect_defs dvfs_boot_def last_qos_def word_sless_alt)
qed

subsection \<open>C5: a request that does not resolve\<close>

text \<open>
  C5, as amended. For every well-formed request other than \<^verbatim>\<open>-1\<close> for which
  \<^verbatim>\<open>get_cpufreq_level\<close> does not return \<^verbatim>\<open>VALID_LEVEL\<close>, each store prints
  "Lock request is invalid", leaves the three variables, the QoS trace and the policy
  update count unchanged, and returns the byte count \<open>n\<close>, which is the success value,
  to its caller. A store returns \<^verbatim>\<open>-EINVAL\<close> exactly when \<^verbatim>\<open>sscanf\<close> could not read an
  integer.
\<close>

theorem unresolved_request_returns_count:
  assumes "v \<noteq> - 1"
  shows "(fst (get_cpufreq_level pf v DVFS_MAX_LOCK_REQ) = Inl e \<longrightarrow>
            cpufreq_max_limit_store pf (Some v) n s =
              (Inr n, s\<lparr>klog := klog s @ snd (get_cpufreq_level pf v DVFS_MAX_LOCK_REQ) @
                                  [Lock_request_is_invalid In_cpufreq_max_limit_store]\<rparr>)) \<and>
         (fst (get_cpufreq_level pf v DVFS_MIN_LOCK_REQ) = Inl e \<longrightarrow>
            cpufreq_min_limit_store pf (Some v) n s =
              (Inr n, s\<lparr>klog := klog s @ snd (get_cpufreq_level pf v DVFS_MIN_LOCK_REQ) @
                                  [Lock_request_is_invalid In_cpufreq_min_limit_store]\<rparr>)) \<and>
         (fst (cpufreq_max_limit_store pf scanned n s) = Inl EINVAL \<longleftrightarrow> scanned = None) \<and>
         (fst (cpufreq_min_limit_store pf scanned n s) = Inl EINVAL \<longleftrightarrow> scanned = None)"
  using assms
  by (auto simp: store_EINVAL_iff)
     (auto simp: cpufreq_max_limit_store_def cpufreq_min_limit_store_def effect_defs
           split: prod.splits sum.splits)

text \<open>
  On the scenario's table no entry is at or above 600 and none is at or below 50.
\<close>

theorem unresolved_request_returns_count_witness:
  "(600 :: 32 word) \<noteq> - 1 \<and>
   fst (get_cpufreq_level pf_scenario 600 DVFS_MIN_LOCK_REQ) = Inl EINVAL \<and>
   cpufreq_min_limit_store pf_scenario (Some 600) 4 dvfs_replaced =
     (Inr 4, dvfs_replaced\<lparr>klog := [Lock_request_is_invalid In_cpufreq_min_limit_store]\<rparr>) \<and>
   (50 :: 32 word) \<noteq> - 1 \<and>
   fst (get_cpufreq_level pf_scenario 50 DVFS_MAX_LOCK_REQ) = Inl EINVAL \<and>
   cpufreq_max_limit_store pf_scenario (Some 50) 3 dvfs_replaced =
     (Inr 3, dvfs_replaced\<lparr>klog := [Lock_request_is_invalid In_cpufreq_max_limit_store]\<rparr>)"
proof -
  have h1: "(600 :: 32 word) \<noteq> - 1" and h2: "(50 :: 32 word) \<noteq> - 1" by simp_all
  have h3: "fst (get_cpufreq_level pf_scenario 600 DVFS_MIN_LOCK_REQ) = Inl EINVAL"
    by (simp add: scenario_min_600)
  have h4: "fst (get_cpufreq_level pf_scenario 50 DVFS_MAX_LOCK_REQ) = Inl EINVAL"
    by (simp add: scenario_max_50)
  have k: "klog dvfs_replaced = []" by (simp add: dvfs_replaced_eq)
  show ?thesis
    using h1 h2 h3 h4 k
      unresolved_request_returns_count [OF h1, of pf_scenario EINVAL 4 dvfs_replaced "Some 600"]
      unresolved_request_returns_count [OF h2, of pf_scenario EINVAL 3 dvfs_replaced "Some 50"]
    by (simp add: scenario_min_600 scenario_max_50)
qed

text \<open>
  C5 as stated fails: the min request 600 does not resolve against the scenario's
  table, and the store returns the byte count, not \<^verbatim>\<open>-EINVAL\<close>.
\<close>

theorem unresolved_request_error_counterexample:
  "get_cpufreq_level pf_scenario 600 DVFS_MIN_LOCK_REQ = (Inl EINVAL, []) \<and>
   fst (cpufreq_min_limit_store pf_scenario (Some 600) 4 dvfs_boot) = Inr 4 \<and>
   fst (cpufreq_min_limit_store pf_scenario (Some 600) 4 dvfs_boot) \<noteq> Inl EINVAL"
  by (simp add: scenario_min_600 cpufreq_min_limit_store_def)

subsection \<open>C6: a min request above the highest valid frequency\<close>

text \<open>
  C6. A min request above the table's highest valid frequency is to be refused, with the
  min value unchanged, because the lookup for a min lock is to skip invalid entries. The
  code does not do this: the scan compares every entry before the terminator with the
  request, and the invalid sentinel is the largest \<^verbatim>\<open>unsigned int\<close>. With the table
  200, 400, invalid, 800 the highest valid frequency is 800; the request 900 matches the
  invalid entry, the lookup returns \<^verbatim>\<open>VALID_LEVEL\<close> with the sentinel as level, and the
  store locks min at 900 and publishes 900.
\<close>

theorem min_lock_matches_invalid_entry:
  "freq_table pf_invalid_entry = Some [200, 400, CPUFREQ_ENTRY_INVALID, 800] \<and>
   highest_valid [200, 400, CPUFREQ_ENTRY_INVALID, 800] = Some 800 \<and>
   (800 :: 32 word) < 900 \<and>
   get_cpufreq_level pf_invalid_entry 900 DVFS_MIN_LOCK_REQ =
     (Inr CPUFREQ_ENTRY_INVALID, []) \<and>
   cpufreq_min_limit_store pf_invalid_entry (Some 900) 4 dvfs_boot =
     (Inr 4, dvfs_boot\<lparr>cpufreq_min_limit_val := 900, qos := [900]\<rparr>)"
  by (simp add: pf_invalid_entry_def highest_valid_def valid_entries_def
        CPUFREQ_ENTRY_INVALID_def get_cpufreq_level_def cpufreq_min_limit_store_def
        effect_defs dvfs_boot_def)

subsection \<open>C7: the ceiling the notifier leaves\<close>

text \<open>
  C7. With the max limit unlocked, an adjust event is to leave the policy's ceiling at
  the table's highest valid entry. The code does not do this when the last entry before
  the terminator is invalid: it writes \<^verbatim>\<open>table[table_length-1].frequency\<close> without
  testing it against the invalid sentinel, which \<^verbatim>\<open>cpufreq_table_show\<close> does test. With
  the table 200, 400, invalid the highest valid entry is 400, and the notifier returns
  \<^verbatim>\<open>NOTIFY_DONE\<close> with the ceiling set to the sentinel.
\<close>

theorem notifier_writes_invalid_entry:
  "freq_table pf_invalid_last = Some [200, 400, CPUFREQ_ENTRY_INVALID] \<and>
   cpufreq_max_limit_val dvfs_boot = - 1 \<and>
   highest_valid [200, 400, CPUFREQ_ENTRY_INVALID] = Some 400 \<and>
   dvfs_cpufreq_notifier pf_invalid_last dvfs_boot (CPUFREQ_ADJUST pf_invalid_last) policy_400 =
     Some (Inr NOTIFY_DONE, policy_400\<lparr>policy_max := CPUFREQ_ENTRY_INVALID\<rparr>, []) \<and>
   CPUFREQ_ENTRY_INVALID \<noteq> 400 \<and>
   cpufreq_table_show pf_invalid_last (Some policy_400) = Some [400, 200]"
  by (simp add: pf_invalid_last_def highest_valid_def valid_entries_def
        CPUFREQ_ENTRY_INVALID_def dvfs_cpufreq_notifier_def dvfs_boot_def
        cpufreq_table_show_def policy_400_def)

subsection \<open>C8: unlocking the max limit twice\<close>

text \<open>
  C8. Writing \<^verbatim>\<open>-1\<close> to the max file twice in a row, from any state: the second write
  takes the "Unlock request is ignored" branch, returns the byte count (success, not
  \<^verbatim>\<open>-EINVAL\<close>) and changes nothing but the log: the min value, the max value, the
  replacement flag, the QoS trace and the policy-update count stay as the first write
  left them.
\<close>

theorem max_unlock_twice_ignored:
  "cpufreq_max_limit_store pf' (Some (- 1)) n'
     (snd (cpufreq_max_limit_store pf (Some (- 1)) n s)) =
   (Inr n', (snd (cpufreq_max_limit_store pf (Some (- 1)) n s))
              \<lparr>klog := klog (snd (cpufreq_max_limit_store pf (Some (- 1)) n s)) @
                         [Unlock_request_is_ignored In_cpufreq_max_limit_store]\<rparr>)"
  by (simp add: cpufreq_max_limit_store_def effect_defs Let_def)

subsection \<open>C9: the replacement flag implies a locked min limit\<close>

text \<open>
  C9. "The replacement flag is set only while the min limit is locked" is preserved by
  both store handlers, for every input (well-formed or not) and every table, and so it
  holds in every state that writes to the two files can reach from boot: no such state
  has \<^verbatim>\<open>min_replacement\<close> set and \<^verbatim>\<open>cpufreq_min_limit_val == -1\<close>.
\<close>

theorem min_replacement_needs_min_lock:
  "(min_replacement_locked s \<longrightarrow>
      min_replacement_locked (snd (cpufreq_max_limit_store pf scanned n s)) \<and>
      min_replacement_locked (snd (cpufreq_min_limit_store pf scanned n s))) \<and>
   (reachable s \<longrightarrow> \<not> (min_replacement s \<noteq> 0 \<and> cpufreq_min_limit_val s = - 1))"
proof (intro conjI impI)
  assume "min_replacement_locked s"
  then show "min_replacement_locked (snd (cpufreq_max_limit_store pf scanned n s))"
    by (rule max_store_locked)
next
  assume "min_replacement_locked s"
  then show "min_replacement_locked (snd (cpufreq_min_limit_store pf scanned n s))"
    by (rule min_store_locked)
next
  assume "reachable s"
  then have "replacement_inv s" by (rule reachable_inv)
  then show "\<not> (min_replacement s \<noteq> 0 \<and> cpufreq_min_limit_val s = - 1)"
    by (auto simp: replacement_inv_def)
qed

text \<open>
  The flag is set in the state reached by locking min at 450 and then max at 350, where
  min is locked; the property holds again after an unlock request to either file.
\<close>

theorem min_replacement_needs_min_lock_witness:
  "reachable dvfs_replaced \<and> min_replacement dvfs_replaced = 1 \<and>
   min_replacement_locked dvfs_replaced \<and>
   cpufreq_min_limit_val dvfs_replaced \<noteq> - 1 \<and>
   min_replacement_locked (snd (cpufreq_max_limit_store pf_scenario (Some (- 1)) 3 dvfs_replaced)) \<and>
   min_replacement_locked (snd (cpufreq_min_limit_store pf_scenario (Some (- 1)) 3 dvfs_replaced))"
proof -
  have r: "reachable dvfs_replaced" by (rule reachable_dvfs_replaced)
  have f: "min_replacement dvfs_replaced = 1" by (simp add: dvfs_replaced_eq)
  have l: "min_replacement_locked dvfs_replaced"
    by (simp add: dvfs_replaced_eq min_replacement_locked_def)
  show ?thesis
    using r f l
      min_replacement_needs_min_lock [of dvfs_replaced pf_scenario "Some (- 1)" 3]
    by simp
qed

subsection \<open>C10: the notifier writes nothing but the policy ceiling\<close>



end
